theory Spec2Isabelle
  imports Main "HOL-Library.Sublist"
begin

section \<open>Text primitives of the migration scripts\<close>

text \<open>
  The four scripts (\<^verbatim>\<open>fix_cli_imports.py\<close>, \<^verbatim>\<open>fix_packages.py\<close>,
  \<^verbatim>\<open>move_and_update.py\<close>, \<^verbatim>\<open>update_refs.py\<close>) edit Go source files as plain text with
  \<^verbatim>\<open>str.replace\<close>, the \<^verbatim>\<open>in\<close> operator and \<^verbatim>\<open>re.sub\<close>. A unit's text is a
  \<^typ>\<open>string\<close>: a list of characters with code points below 256. Python's \<^verbatim>\<open>a in b\<close> on
  strings is \<^const>\<open>sublist\<close>, \<^verbatim>\<open>startswith\<close> is \<^const>\<open>prefix\<close> and \<^verbatim>\<open>endswith\<close> is
  \<^const>\<open>suffix\<close>.
\<close>

definition NL :: char where
  "NL = CHR 0x0A"

definition TAB :: char where
  "TAB = CHR 0x09"

definition DQ :: char where
  "DQ = CHR 0x22"

text \<open>
  \<^verbatim>\<open>\w\<close> of a Python 3 \<^verbatim>\<open>str\<close> pattern: the underscore and every character that is
  alphanumeric in Unicode. Below code point 256 these are the ASCII letters and digits,
  U+00AA, U+00B2, U+00B3, U+00B5, U+00B9, U+00BA, U+00BC..U+00BE, U+00C0..U+00D6,
  U+00D8..U+00F6 and U+00F8..U+00FF.
\<close>

definition is_word :: "char \<Rightarrow> bool" where
  "is_word c =
     (let n = of_char c :: nat in
        (48 \<le> n \<and> n \<le> 57) \<or> (65 \<le> n \<and> n \<le> 90) \<or> n = 95 \<or> (97 \<le> n \<and> n \<le> 122) \<or>
        n = 170 \<or> n = 178 \<or> n = 179 \<or> n = 181 \<or> n = 185 \<or> n = 186 \<or>
        (188 \<le> n \<and> n \<le> 190) \<or> (192 \<le> n \<and> n \<le> 214) \<or> (216 \<le> n \<and> n \<le> 246) \<or>
        (248 \<le> n \<and> n \<le> 255))"

text \<open>
  A matcher stands for one compiled pattern together with its replacement template. Given
  the character before the current position (\<open>None\<close> at the start of the text) and the
  text from the current position on, it answers \<open>Some (n, r)\<close> when the pattern matches
  the next \<open>n\<close> characters and the expanded template is \<open>r\<close>, and \<open>None\<close> when the
  pattern does not match here.
\<close>

type_synonym matcher = "char option \<Rightarrow> string \<Rightarrow> (nat \<times> string) option"

text \<open>
  \<^verbatim>\<open>re.sub(pattern, repl, text)\<close>: scan from the left, at each position try the pattern,
  on a match emit the template and continue behind the match, otherwise copy one character
  and move on. No pattern of the scripts matches the empty string; a matcher answering
  \<open>n = 0\<close> is treated as not matching.
\<close>

function re_sub :: "matcher \<Rightarrow> char option \<Rightarrow> string \<Rightarrow> string" where
  "re_sub m prev [] = []"
| "re_sub m prev (c # cs) =
     (case m prev (c # cs) of
        None \<Rightarrow> c # re_sub m (Some c) cs
      | Some (n, r) \<Rightarrow>
          if 0 < n
          then r @ re_sub m (Some (last (take n (c # cs)))) (drop n (c # cs))
          else c # re_sub m (Some c) cs)"
  by pat_completeness auto
termination
  by (relation "measure (\<lambda>(m, prev, s). length s)") auto

text \<open>A pattern without metacharacters, matching the string \<open>old\<close> itself.\<close>

definition lit :: "string \<Rightarrow> string \<Rightarrow> matcher" where
  "lit old new = (\<lambda>prev s. if old \<noteq> [] \<and> prefix old s then Some (length old, new) else None)"

text \<open>
  \<^verbatim>\<open>text.replace(old, new)\<close>: every non-overlapping occurrence of \<open>old\<close>, leftmost first.
  With an empty \<open>old\<close> Python puts \<open>new\<close> before every character and at the end.
\<close>

definition replace :: "string \<Rightarrow> string \<Rightarrow> string \<Rightarrow> string" where
  "replace old new s =
     (if old = [] then new @ concat (map (\<lambda>c. c # new) s)
      else re_sub (lit old new) None s)"

text \<open>The first character of a text, if any: what a zero-width assertion looks at next.\<close>

definition head :: "string \<Rightarrow> char option" where
  "head s = (case s of [] \<Rightarrow> None | c # _ \<Rightarrow> Some c)"

text \<open>
  \<^verbatim>\<open>^\<close> without \<^verbatim>\<open>re.MULTILINE\<close> holds at the start of the text only; with the flag it
  also holds behind every newline. \<^verbatim>\<open>$\<close> with the flag holds at the end of the text and
  in front of every newline. \<^verbatim>\<open>\b\<close> holds where exactly one of the two neighbouring
  characters is a word character, the ends of the text counting as non-word.
\<close>

definition at_start :: "char option \<Rightarrow> bool" where
  "at_start prev = (prev = None)"

definition at_line_start :: "char option \<Rightarrow> bool" where
  "at_line_start prev = (prev = None \<or> prev = Some NL)"

definition at_line_end :: "string \<Rightarrow> bool" where
  "at_line_end s = (head s = None \<or> head s = Some NL)"

definition opt_word :: "char option \<Rightarrow> bool" where
  "opt_word x = (case x of None \<Rightarrow> False | Some c \<Rightarrow> is_word c)"

definition word_boundary :: "char option \<Rightarrow> char option \<Rightarrow> bool" where
  "word_boundary left right = (opt_word left \<noteq> opt_word right)"

section \<open>fix\_cli\_imports.py\<close>

definition cli_import :: string where
  \<open>cli_import = ''cli "github.com/dl-alexandre/gdrv/internal/cli"''\<close>

text \<open>
  Lines 26 to 33: when the import line is not in the text yet,
  \<^verbatim>\<open>re.sub(r'import \(', 'import (\n\tcli "..."', content)\<close>.
\<close>

definition add_cli_import :: "string \<Rightarrow> string" where
  "add_cli_import content =
     (if \<not> sublist cli_import content
      then re_sub (lit ''import ('' (''import ('' @ [NL, TAB] @ cli_import)) None content
      else content)"

text \<open>
  Lines 36 to 40: \<^verbatim>\<open>re.sub(r'tcli "github.com/dl-alexandre/gdrv/internal/cli"', ...)\<close>.
  The dot of the pattern is a metacharacter: any character but a newline.
\<close>

definition tcli_head :: string where
  \<open>tcli_head = ''tcli "github''\<close>

definition tcli_tail :: string where
  \<open>tcli_tail = ''com/dl-alexandre/gdrv/internal/cli"''\<close>

definition tcli_matcher :: matcher where
  "tcli_matcher = (\<lambda>prev s.
     if prefix tcli_head s \<and>
        (case drop (length tcli_head) s of [] \<Rightarrow> False | d # t \<Rightarrow> d \<noteq> NL \<and> prefix tcli_tail t)
     then Some (length tcli_head + 1 + length tcli_tail, TAB # cli_import)
     else None)"

text \<open>
  Lines 48 to 52 (and lines 49 to 53 of \<^verbatim>\<open>update_refs.py\<close>):
  \<^verbatim>\<open>re.sub(r'func \(cmd \*(\w+)\) Run\(globals \*Globals\)',
              r'func (cmd *\1) Run(globals *cli.Globals)', content)\<close>.
  The group is greedy and the character behind it is not a word character, so the group
  is the longest run of word characters.
\<close>

definition sig_head :: string where
  "sig_head = ''func (cmd *''"

definition sig_tail :: string where
  "sig_tail = '') Run(globals *Globals)''"

definition sig_matcher :: matcher where
  "sig_matcher = (\<lambda>prev s.
     if prefix sig_head s then
       (let t = drop (length sig_head) s; w = takeWhile is_word t; u = dropWhile is_word t in
        if w \<noteq> [] \<and> prefix sig_tail u
        then Some (length sig_head + length w + length sig_tail,
                   sig_head @ w @ '') Run(globals *cli.Globals)'')
        else None)
     else None)"

text \<open>Lines 55 to 81, in the order of the source.\<close>

definition replacements :: "(string \<times> string) list" where
  "replacements =
     [(''NewOutputWriter('', ''cli.NewOutputWriter(''),
      (''ResolveFileID('', ''cli.ResolveFileID(''),
      (''GetGlobalFlags()'', ''cli.GetGlobalFlags()''),
      (''GetLogger()'', ''cli.GetLogger()''),
      (''GetPathResolver('', ''cli.GetPathResolver(''),
      (''GetResolveOptions('', ''cli.GetResolveOptions(''),
      (''handleCLIError('', ''cli.HandleCLIError(''),
      (''convertDriveFile('', ''cli.ConvertDriveFile(''),
      (''isPath('', ''cli.IsPath(''),
      (''getConfigDir()'', ''cli.GetConfigDir()''),
      (''resolveTimeRange('', ''cli.ResolveTimeRange(''),
      (''splitCSV('', ''cli.SplitCSV(''),
      (''scopesForPreset('', ''cli.ScopesForPreset(''),
      (''resolveAuthScopes('', ''cli.ResolveAuthScopes(''),
      (''validateAdminScopesRequireImpersonation('',
       ''cli.ValidateAdminScopesRequireImpersonation(''),
      (''buildOAuthClientError('', ''cli.BuildOAuthClientError(''),
      (''oauthClientSource'', ''cli.OAuthClientSource''),
      (''oauthClientSourceFlags'', ''cli.OAuthClientSourceFlags''),
      (''oauthClientSourceEnv'', ''cli.OAuthClientSourceEnv''),
      (''oauthClientSourceConfig'', ''cli.OAuthClientSourceConfig''),
      (''oauthClientSourceBundled'', ''cli.OAuthClientSourceBundled''),
      (''isTruthyEnv('', ''cli.IsTruthyEnv(''),
      (''buildAuthFlowError('', ''cli.BuildAuthFlowError(''),
      (''oauthClientSecretHint('', ''cli.OAuthClientSecretHint(''),
      (''openBrowser('', ''cli.OpenBrowser('')]"

text \<open>Lines 83 and 84: \<^verbatim>\<open>for old, new in replacements: content = content.replace(old, new)\<close>.\<close>

fun apply_replacements :: "(string \<times> string) list \<Rightarrow> string \<Rightarrow> string" where
  "apply_replacements [] content = content"
| "apply_replacements ((old, new) # rs) content = apply_replacements rs (replace old new content)"

text \<open>The text that \<^verbatim>\<open>fix_file\<close> writes back, from the text it read (lines 26 to 84).\<close>

definition fix_content :: "string \<Rightarrow> string" where
  "fix_content content =
     (let c1 = add_cli_import content;
          c2 = re_sub tcli_matcher None c1;
          c3 = re_sub (lit (NL # ''tcli '') (NL # TAB # ''cli '')) None c2;
          c4 = re_sub sig_matcher None c3
      in apply_replacements replacements c4)"

section \<open>Files\<close>

text \<open>
  The file system the scripts act on maps a path to what is there: nothing, a regular file
  with its text, a regular file whose bytes do not decode as text, or a directory. Every
  exception the scripts can meet is a value; a script that raises stops at once, so each
  operation returns the file system it leaves behind together with the exception, if one
  was raised.
\<close>

datatype node = File string | Binary | Dir

type_synonym fs = "string \<Rightarrow> node option"

datatype py_error =
  FileNotFoundError | IsADirectoryError | NotADirectoryError | FileExistsError |
  UnicodeDecodeError | OSError

text \<open>
  What \<^verbatim>\<open>with open(path, 'w') as f: f.write(data)\<close> does is up to the device: opening
  may fail, leaving the path as it was; the write may fail after the file was truncated,
  leaving some text behind; or the statement completes and the file holds some text. On a
  sound device that text is \<open>data\<close>.
\<close>

datatype write_outcome = OpenFails | WriteFails string | Written string

type_synonym device = "string \<Rightarrow> string \<Rightarrow> write_outcome"

definition sound_device :: device where
  "sound_device = (\<lambda>path data. Written data)"

text \<open>\<^verbatim>\<open>os.path.join(a, b)\<close> of \<^verbatim>\<open>posixpath\<close>.\<close>

definition path_join :: "string \<Rightarrow> string \<Rightarrow> string" where
  "path_join a b =
     (if prefix ''/'' b then b
      else if a = [] \<or> suffix ''/'' a then a @ b
      else a @ ''/'' @ b)"

definition exists_path :: "fs \<Rightarrow> string \<Rightarrow> bool" where
  "exists_path fs p = (fs p \<noteq> None)"

text \<open>
  \<^verbatim>\<open>with open(path, 'r') as f: content = f.read()\<close>. The file is opened in text mode, so
  reading a file whose bytes do not decode raises.
\<close>

definition read_file :: "fs \<Rightarrow> string \<Rightarrow> py_error + string" where
  "read_file fs p =
     (case fs p of
        None \<Rightarrow> Inl FileNotFoundError
      | Some Dir \<Rightarrow> Inl IsADirectoryError
      | Some Binary \<Rightarrow> Inl UnicodeDecodeError
      | Some (File content) \<Rightarrow> Inr content)"

text \<open>
  \<^verbatim>\<open>with open(path, 'w') as f: f.write(data)\<close>. At both places where the scripts write,
  the directory of the path is known to exist: \<^verbatim>\<open>fix_file\<close> has just read the same
  path, and \<^verbatim>\<open>move_and_update.py\<close> has just created the directory.
\<close>

definition write_file :: "device \<Rightarrow> fs \<Rightarrow> string \<Rightarrow> string \<Rightarrow> fs \<times> py_error option" where
  "write_file dev fs p data =
     (case fs p of
        Some Dir \<Rightarrow> (fs, Some IsADirectoryError)
      | _ \<Rightarrow>
          (case dev p data of
             OpenFails \<Rightarrow> (fs, Some OSError)
           | WriteFails left \<Rightarrow> (fs(p \<mapsto> File left), Some OSError)
           | Written landed \<Rightarrow> (fs(p \<mapsto> File landed), None)))"

text \<open>\<^verbatim>\<open>os.remove(path)\<close>.\<close>

definition remove_file :: "fs \<Rightarrow> string \<Rightarrow> fs \<times> py_error option" where
  "remove_file fs p =
     (case fs p of
        None \<Rightarrow> (fs, Some FileNotFoundError)
      | Some Dir \<Rightarrow> (fs, Some IsADirectoryError)
      | Some _ \<Rightarrow> (fs(p := None), None))"

text \<open>
  The directories \<^verbatim>\<open>os.makedirs(name, exist_ok=True)\<close> needs: every prefix of the path
  that ends in front of a slash, and the path itself, shortest first.
\<close>

fun dir_prefixes :: "string \<Rightarrow> string \<Rightarrow> string list" where
  "dir_prefixes acc [] = (if acc = [] then [] else [acc])"
| "dir_prefixes acc (c # cs) =
     (if c = CHR ''/'' \<and> acc \<noteq> [] \<and> \<not> suffix ''/'' acc
      then acc # dir_prefixes (acc @ [c]) cs
      else dir_prefixes (acc @ [c]) cs)"

text \<open>
  A missing directory is created, an existing one is kept, and a regular file in the way
  raises: \<^verbatim>\<open>FileExistsError\<close> at the leaf, \<^verbatim>\<open>NotADirectoryError\<close> above it.
\<close>

fun mkdirs :: "fs \<Rightarrow> string list \<Rightarrow> fs \<times> py_error option" where
  "mkdirs fs [] = (fs, None)"
| "mkdirs fs (d # ds) =
     (case fs d of
        None \<Rightarrow> mkdirs (fs(d \<mapsto> Dir)) ds
      | Some Dir \<Rightarrow> mkdirs fs ds
      | Some _ \<Rightarrow> (fs, Some (if ds = [] then FileExistsError else NotADirectoryError)))"

definition makedirs :: "fs \<Rightarrow> string \<Rightarrow> fs \<times> py_error option" where
  "makedirs fs name = mkdirs fs (dir_prefixes [] name)"

text \<open>
  \<^verbatim>\<open>fix_file(filepath)\<close>, lines 19 to 89: the file is read first, a path that does not end
  in \<^verbatim>\<open>.go\<close> or that ends in \<^verbatim>\<open>_test.go\<close> returns before anything is written.
\<close>

definition fix_file :: "device \<Rightarrow> fs \<Rightarrow> string \<Rightarrow> fs \<times> py_error option" where
  "fix_file dev fs filepath =
     (case read_file fs filepath of
        Inl e \<Rightarrow> (fs, Some e)
      | Inr content \<Rightarrow>
          if \<not> suffix ''.go'' filepath \<or> suffix ''_test.go'' filepath then (fs, None)
          else write_file dev fs filepath (fix_content content))"

definition packages :: "string list" where
  "packages =
     [''internal/cli/drive'', ''internal/cli/workspace'', ''internal/cli/admin'',
      ''internal/cli/chat'', ''internal/cli/gmail'', ''internal/cli/people'',
      ''internal/cli/calendar'', ''internal/cli/activity'', ''internal/cli/sync'',
      ''internal/cli/system'']"

text \<open>
  Lines 94 to 97, the loop over the names \<^verbatim>\<open>os.listdir(pkg)\<close> returned. The listing
  and its order are the operating system's; they are a parameter \<open>listdir\<close> of the model.
\<close>

fun fix_listed :: "device \<Rightarrow> fs \<Rightarrow> string \<Rightarrow> string list \<Rightarrow> fs \<times> py_error option" where
  "fix_listed dev fs pkg [] = (fs, None)"
| "fix_listed dev fs pkg (filename # rest) =
     (if suffix ''.go'' filename \<and> \<not> suffix ''_test.go'' filename then
        (case fix_file dev fs (path_join pkg filename) of
           (fs', None) \<Rightarrow> fix_listed dev fs' pkg rest
         | (fs', Some e) \<Rightarrow> (fs', Some e))
      else fix_listed dev fs pkg rest)"

text \<open>Lines 92 to 97, the loop over the packages.\<close>

fun fix_packages_loop ::
  "device \<Rightarrow> (fs \<Rightarrow> string \<Rightarrow> string list) \<Rightarrow> fs \<Rightarrow> string list \<Rightarrow> fs \<times> py_error option" where
  "fix_packages_loop dev listdir fs [] = (fs, None)"
| "fix_packages_loop dev listdir fs (pkg # pkgs) =
     (case fs pkg of
        None \<Rightarrow> fix_packages_loop dev listdir fs pkgs
      | Some Dir \<Rightarrow>
          (case fix_listed dev fs pkg (listdir fs pkg) of
             (fs', None) \<Rightarrow> fix_packages_loop dev listdir fs' pkgs
           | (fs', Some e) \<Rightarrow> (fs', Some e))
      | Some _ \<Rightarrow> (fs, Some NotADirectoryError))"

definition fix_cli_imports :: "device \<Rightarrow> (fs \<Rightarrow> string \<Rightarrow> string list) \<Rightarrow> fs \<Rightarrow> fs \<times> py_error option" where
  "fix_cli_imports dev listdir fs = fix_packages_loop dev listdir fs packages"

section \<open>update\_refs.py\<close>

text \<open>
  The patterns of the replacement list (lines 6 to 29) have three shapes:
  \<^verbatim>\<open>\bNAME\(\<close>, \<^verbatim>\<open>\bNAME\(\)\<close> and \<^verbatim>\<open>\bNAME\b\<close>.
\<close>

datatype ref_pattern = Call_b string | Call0_b string | Word_b string

fun ref_matcher :: "ref_pattern \<Rightarrow> string \<Rightarrow> matcher" where
  "ref_matcher (Call_b name) new = (\<lambda>prev s.
     if word_boundary prev (head s) \<and> prefix (name @ ''('') s
     then Some (length name + 1, new) else None)"
| "ref_matcher (Call0_b name) new = (\<lambda>prev s.
     if word_boundary prev (head s) \<and> prefix (name @ ''()'') s
     then Some (length name + 2, new) else None)"
| "ref_matcher (Word_b name) new = (\<lambda>prev s.
     if word_boundary prev (head s) \<and> prefix name s \<and>
        word_boundary (if name = [] then prev else Some (last name)) (head (drop (length name) s))
     then Some (length name, new) else None)"

definition ref_replacements :: "(ref_pattern \<times> string) list" where
  "ref_replacements =
     [(Call_b ''NewOutputWriter'', ''base.NewOutputWriter(''),
      (Call_b ''handleCLIError'', ''base.HandleCLIError(''),
      (Call_b ''convertDriveFile'', ''base.ConvertDriveFile(''),
      (Call_b ''truncate'', ''base.Truncate(''),
      (Call_b ''formatSize'', ''base.FormatSize(''),
      (Call_b ''isPath'', ''cli.IsPath(''),
      (Call0_b ''getConfigDir'', ''cli.GetConfigDir()''),
      (Call_b ''resolveTimeRange'', ''cli.ResolveTimeRange(''),
      (Call_b ''splitCSV'', ''cli.SplitCSV(''),
      (Call_b ''scopesForPreset'', ''cli.ScopesForPreset(''),
      (Call_b ''resolveAuthScopes'', ''cli.ResolveAuthScopes(''),
      (Call_b ''validateAdminScopesRequireImpersonation'',
       ''cli.ValidateAdminScopesRequireImpersonation(''),
      (Call_b ''buildOAuthClientError'', ''cli.BuildOAuthClientError(''),
      (Word_b ''oauthClientSource'', ''cli.OAuthClientSource''),
      (Word_b ''oauthClientSourceFlags'', ''cli.OAuthClientSourceFlags''),
      (Word_b ''oauthClientSourceEnv'', ''cli.OAuthClientSourceEnv''),
      (Word_b ''oauthClientSourceConfig'', ''cli.OAuthClientSourceConfig''),
      (Word_b ''oauthClientSourceBundled'', ''cli.OAuthClientSourceBundled''),
      (Call_b ''isTruthyEnv'', ''cli.IsTruthyEnv(''),
      (Call_b ''buildAuthFlowError'', ''cli.BuildAuthFlowError(''),
      (Call_b ''oauthClientSecretHint'', ''cli.OAuthClientSecretHint(''),
      (Call_b ''openBrowser'', ''cli.OpenBrowser('')]"

text \<open>
  Lines 45 and 46:
  \<^verbatim>\<open>for pattern, replacement in replacements: content = re.sub(pattern, replacement, content)\<close>.
\<close>

fun apply_ref_replacements :: "(ref_pattern \<times> string) list \<Rightarrow> string \<Rightarrow> string" where
  "apply_ref_replacements [] content = content"
| "apply_ref_replacements ((pat, new) # rs) content =
     apply_ref_replacements rs (re_sub (ref_matcher pat new) None content)"

definition cli_path_quoted :: string where
  \<open>cli_path_quoted = ''"github.com/dl-alexandre/gdrv/internal/cli"''\<close>

text \<open>The text written back for one file (lines 44 to 63).\<close>

definition update_content :: "string \<Rightarrow> string" where
  "update_content content =
     (let c1 = apply_ref_replacements ref_replacements content;
          c2 = re_sub sig_matcher None c1
      in if sublist ''cli.Globals'' c2 \<or> sublist ''cli.'' c2 then
           (if \<not> sublist cli_path_quoted c2 then
              (if sublist ''import ('' c2
               then replace ''import ('' (''import ('' @ [NL, TAB] @ cli_import) c2
               else c2)
            else c2)
         else c2)"

section \<open>fix\_packages.py\<close>

text \<open>
  Line 30: \<^verbatim>\<open>re.sub(r'^package \w+', f'package {pkg_name}', content)\<close>, with no flags.
\<close>

definition package_matcher :: "string \<Rightarrow> matcher" where
  "package_matcher pkg_name = (\<lambda>prev s.
     if at_start prev \<and> prefix ''package '' s then
       (let w = takeWhile is_word (drop (length ''package '') s) in
        if w \<noteq> [] then Some (length ''package '' + length w, ''package '' @ pkg_name)
        else None)
     else None)"

definition base_path :: string where
  "base_path = ''github.com/dl-alexandre/gdrv/internal/cli/base''"

definition base_import_block :: string where
  "base_import_block = ''import ('' @ [NL, TAB, DQ] @ base_path @ [DQ]"

text \<open>
  The template \<^verbatim>\<open>r'import (\n\t"github.com/dl-alexandre/gdrv/internal/cli/base"\n\t"\1"\n)'\<close>
  of both single-import substitutions, expanded for the captured path.
\<close>

definition single_import_block :: "string \<Rightarrow> string" where
  "single_import_block g = base_import_block @ [NL, TAB, DQ] @ g @ [DQ, NL] @ '')''"

text \<open>
  Lines 41 to 46: \<^verbatim>\<open>re.sub(r'^import "([^"]+)"', ..., flags=re.MULTILINE)\<close>. The class
  \<^verbatim>\<open>[^"]\<close> includes the newline; the group is the longest run without a double quote.
\<close>

definition import_head :: string where
  \<open>import_head = ''import "''\<close>

definition single_import_matcher :: "bool \<Rightarrow> matcher" where
  "single_import_matcher to_line_end = (\<lambda>prev s.
     if at_line_start prev \<and> prefix import_head s then
       (let t = drop (length import_head) s;
            g = takeWhile (\<lambda>c. c \<noteq> DQ) t;
            u = dropWhile (\<lambda>c. c \<noteq> DQ) t
        in if g \<noteq> [] \<and> u \<noteq> [] \<and> (to_line_end \<longrightarrow> at_line_end (tl u))
           then Some (length import_head + length g + 1, single_import_block g)
           else None)
     else None)"

text \<open>The text written back for one file of package \<open>pkg_name\<close> (lines 29 to 46).\<close>

definition fix_package_content :: "string \<Rightarrow> string \<Rightarrow> string" where
  "fix_package_content pkg_name content =
     (let c1 = re_sub (package_matcher pkg_name) None content
      in if \<not> sublist base_path c1 then
           (if sublist ''import ('' c1 then replace ''import ('' base_import_block c1
            else re_sub (single_import_matcher False) None c1)
         else c1)"

section \<open>move\_and\_update.py\<close>

text \<open>The dictionary of lines 6 to 54, in insertion order, which is the iteration order.\<close>

definition file_mapping :: "(string \<times> string) list" where
  "file_mapping =
     [(''files.go'', ''drive''), (''folders.go'', ''drive''), (''drives.go'', ''drive''),
      (''permissions.go'', ''drive''), (''changes.go'', ''drive''), (''labels.go'', ''drive''),
      (''sheets.go'', ''workspace''), (''docs.go'', ''workspace''), (''slides.go'', ''workspace''),
      (''forms.go'', ''workspace''), (''appscript.go'', ''workspace''),
      (''admin.go'', ''admin''), (''iamadmin.go'', ''admin''), (''groups.go'', ''admin''),
      (''chat.go'', ''chat''), (''gmail.go'', ''gmail''), (''people.go'', ''people''),
      (''calendar.go'', ''calendar''), (''tasks.go'', ''calendar''), (''meet.go'', ''calendar''),
      (''activity.go'', ''activity''), (''sync.go'', ''sync''),
      (''auth.go'', ''system''), (''config.go'', ''system''), (''about.go'', ''system''),
      (''completion.go'', ''system''), (''ai.go'', ''system''), (''cloudlogging.go'', ''system''),
      (''monitoring.go'', ''system''),
      (''sheets_test.go'', ''workspace''), (''docs_test.go'', ''workspace''),
      (''slides_test.go'', ''workspace''), (''admin_test.go'', ''admin''),
      (''auth_error_test.go'', ''system''), (''parse_test.go'', ''system''),
      (''config_parse_bool_test.go'', ''system'')]"

definition cli_dir :: string where
  "cli_dir = ''internal/cli''"

text \<open>
  Line 73: \<^verbatim>\<open>re.sub(r'^package cli$', f'package {pkg}', content, flags=re.MULTILINE)\<close>.
\<close>

definition package_cli_matcher :: "string \<Rightarrow> matcher" where
  "package_cli_matcher pkg = (\<lambda>prev s.
     if at_line_start prev \<and> prefix ''package cli'' s \<and>
        at_line_end (drop (length ''package cli'') s)
     then Some (length ''package cli'', ''package '' @ pkg) else None)"

text \<open>Lines 90 to 94.\<close>

definition base_replacements :: "(string \<times> string) list" where
  "base_replacements =
     [(''NewOutputWriter('', ''base.NewOutputWriter(''),
      (''handleCLIError('', ''base.HandleCLIError(''),
      (''convertDriveFile('', ''base.ConvertDriveFile(''),
      (''truncate('', ''base.Truncate(''),
      (''formatSize('', ''base.FormatSize('')]"

text \<open>The text written to the destination, from the text of the source file (lines 72 to 94).\<close>

definition move_content :: "string \<Rightarrow> string \<Rightarrow> string" where
  "move_content pkg content =
     (let c1 = re_sub (package_cli_matcher pkg) None content;
          c2 = (if sublist ''import ('' c1 then replace ''import ('' base_import_block c1
                else re_sub (single_import_matcher True) None c1)
      in apply_replacements base_replacements c2)"

text \<open>Lines 58 to 60: the source path, the destination directory and the destination path.\<close>

definition src_of :: "string \<times> string \<Rightarrow> string" where
  "src_of entry = path_join cli_dir (fst entry)"

definition dst_dir_of :: "string \<times> string \<Rightarrow> string" where
  "dst_dir_of entry = path_join cli_dir (snd entry)"

definition dst_of :: "string \<times> string \<Rightarrow> string" where
  "dst_of entry = path_join (dst_dir_of entry) (fst entry)"

text \<open>One round of the loop of lines 57 to 103, for the entry \<open>(filename, pkg)\<close>.\<close>

definition move_one :: "device \<Rightarrow> fs \<Rightarrow> string \<times> string \<Rightarrow> fs \<times> py_error option" where
  "move_one dev fs entry =
     (if exists_path fs (src_of entry) then
        (case makedirs fs (dst_dir_of entry) of
           (fs1, Some e) \<Rightarrow> (fs1, Some e)
         | (fs1, None) \<Rightarrow>
             (case read_file fs1 (src_of entry) of
                Inl e \<Rightarrow> (fs1, Some e)
              | Inr content \<Rightarrow>
                  (case write_file dev fs1 (dst_of entry) (move_content (snd entry) content) of
                     (fs2, Some e) \<Rightarrow> (fs2, Some e)
                   | (fs2, None) \<Rightarrow> remove_file fs2 (src_of entry))))
      else (fs, None))"

fun move_all :: "device \<Rightarrow> fs \<Rightarrow> (string \<times> string) list \<Rightarrow> fs \<times> py_error option" where
  "move_all dev fs [] = (fs, None)"
| "move_all dev fs (entry # entries) =
     (case move_one dev fs entry of
        (fs', None) \<Rightarrow> move_all dev fs' entries
      | (fs', Some e) \<Rightarrow> (fs', Some e))"

definition move_and_update :: "device \<Rightarrow> fs \<Rightarrow> fs \<times> py_error option" where
  "move_and_update dev fs = move_all dev fs file_mapping"

section \<open>Predicates of the statements\<close>

text \<open>The pattern of a matcher matches nowhere in a text.\<close>

fun never_matches :: "matcher \<Rightarrow> char option \<Rightarrow> string \<Rightarrow> bool" where
  "never_matches m prev [] = True"
| "never_matches m prev (c # cs) = (m prev (c # cs) = None \<and> never_matches m (Some c) cs)"

text \<open>
  No step of \<^verbatim>\<open>fix_file\<close> finds anything to do in a text: the import line is there or
  there is no \<^verbatim>\<open>import (\<close> to put it behind, and none of the patterns occurs.
\<close>

definition cli_fixed :: "string \<Rightarrow> bool" where
  "cli_fixed c \<longleftrightarrow>
     (sublist cli_import c \<or> \<not> sublist ''import ('' c) \<and>
     never_matches tcli_matcher None c \<and>
     \<not> sublist (NL # ''tcli '') c \<and>
     never_matches sig_matcher None c \<and>
     list_all (\<lambda>(old, new). \<not> sublist old c) replacements"

text \<open>The same for the loop body of \<^verbatim>\<open>update_refs.py\<close>.\<close>

definition refs_fixed :: "string \<Rightarrow> bool" where
  "refs_fixed c \<longleftrightarrow>
     list_all (\<lambda>(pat, new). never_matches (ref_matcher pat new) None c) ref_replacements \<and>
     never_matches sig_matcher None c \<and>
     (\<not> sublist ''cli.'' c \<or> sublist cli_path_quoted c \<or> \<not> sublist ''import ('' c)"








text \<open>
  The paths \<^verbatim>\<open>move_and_update.py\<close> can write to: the sources, the destinations and the
  directories it makes sure of.
\<close>

definition touched_paths :: "string list" where
  "touched_paths =
     map src_of file_mapping @ map dst_of file_mapping @
     [''internal'', ''internal/cli''] @ map dst_dir_of file_mapping"

text \<open>
  The entries do not get in each other's way: the sources are distinct and no source is a
  destination or a destination directory of any entry.
\<close>

definition independent :: "(string \<times> string) list \<Rightarrow> bool" where
  "independent entries \<longleftrightarrow>
     distinct (map src_of entries) \<and>
     list_all (\<lambda>e. list_all (\<lambda>e'. src_of e \<noteq> dst_of e' \<and>
                                  src_of e \<notin> set (dir_prefixes [] (dst_dir_of e'))) entries) entries"

text \<open>
  A small tree for the concrete cases: a unit to move with a file already at its
  destination, a unit the mapping does not name, and a unit of the drive package with its
  test file.
\<close>

definition fs_example :: fs where
  "fs_example = Map.empty(
     ''internal'' \<mapsto> Dir,
     ''internal/cli'' \<mapsto> Dir,
     ''internal/cli/drive'' \<mapsto> Dir,
     ''internal/cli/main.go'' \<mapsto> File ''package cli'',
     ''internal/cli/files.go'' \<mapsto> File ''package cli'',
     ''internal/cli/drive/files.go'' \<mapsto> File ''package other'',
     ''internal/cli/drive/list.go'' \<mapsto> File ''NewOutputWriter('',
     ''internal/cli/drive/list_test.go'' \<mapsto> File ''NewOutputWriter('')"

text \<open>A device on which every write fails after the file was truncated.\<close>

definition failing_device :: device where
  "failing_device = (\<lambda>path data. WriteFails [])"

text \<open>A device on which every write completes and leaves other text than was written.\<close>

definition corrupting_device :: device where
  "corrupting_device = (\<lambda>path data. Written ''garbage'')"

section \<open>Substitution lemmas\<close>

lemma re_sub_never_matches: "never_matches m prev s \<Longrightarrow> re_sub m prev s = s"
  by (induction s arbitrary: prev) auto

lemma lit_never_matches: "\<not> sublist old s \<Longrightarrow> never_matches (lit old new) prev s"
  by (induction s arbitrary: prev) (auto simp: lit_def sublist_Cons_right)

lemma re_sub_lit_absent: "\<not> sublist old s \<Longrightarrow> re_sub (lit old new) prev s = s"
  by (simp add: re_sub_never_matches lit_never_matches)

lemma replace_absent: "\<not> sublist old s \<Longrightarrow> replace old new s = s"
  by (auto simp: replace_def re_sub_lit_absent)

lemma apply_replacements_absent:
  "list_all (\<lambda>(old, new). \<not> sublist old s) rs \<Longrightarrow> apply_replacements rs s = s"
  by (induction rs) (auto simp: replace_absent)

lemma apply_ref_replacements_absent:
  "list_all (\<lambda>(pat, new). never_matches (ref_matcher pat new) None s) rs \<Longrightarrow>
   apply_ref_replacements rs s = s"
  by (induction rs) (auto simp: re_sub_never_matches)




lemma fix_content_fixed: "cli_fixed c \<Longrightarrow> fix_content c = c"
  unfolding cli_fixed_def fix_content_def add_cli_import_def
  by (auto simp: Let_def re_sub_never_matches re_sub_lit_absent apply_replacements_absent)

lemma sublist_cli_Globals: "sublist ''cli.Globals'' c \<Longrightarrow> sublist ''cli.'' c"
proof -
  assume "sublist ''cli.Globals'' c"
  moreover have "sublist ''cli.'' ''cli.Globals''" by code_simp
  ultimately show ?thesis by (rule sublist_order.order_trans[rotated])
qed

lemma update_content_fixed: "refs_fixed c \<Longrightarrow> update_content c = c"
  unfolding refs_fixed_def update_content_def
  by (auto simp: Let_def re_sub_never_matches apply_ref_replacements_absent
           dest: sublist_cli_Globals)











section \<open>File system lemmas\<close>

lemma fix_file_test_unchanged: "suffix ''_test.go'' p \<Longrightarrow> fst (fix_file dev fs p) = fs"
  by (auto simp: fix_file_def split: sum.splits)

lemma write_file_frame: "q \<noteq> p \<Longrightarrow> fst (write_file dev fs q data) p = fs p"
  by (auto simp: write_file_def split: option.splits node.splits write_outcome.splits)

lemma fix_file_frame: "q \<noteq> p \<Longrightarrow> fst (fix_file dev fs q) p = fs p"
  by (auto simp: fix_file_def write_file_frame split: sum.splits)

lemma fix_file_keeps_test: "suffix ''_test.go'' p \<Longrightarrow> fst (fix_file dev fs q) p = fs p"
  by (cases "q = p") (simp_all add: fix_file_test_unchanged fix_file_frame)

lemma fix_listed_keeps_test:
  "suffix ''_test.go'' p \<Longrightarrow> fst (fix_listed dev fs pkg names) p = fs p"
proof (induction names arbitrary: fs)
  case Nil
  then show ?case by simp
next
  case (Cons filename rest)
  show ?case
  proof (cases "suffix ''.go'' filename \<and> \<not> suffix ''_test.go'' filename")
    case False
    then show ?thesis using Cons by auto
  next
    case True
    obtain fs' r where step: "fix_file dev fs (path_join pkg filename) = (fs', r)"
      by (cases "fix_file dev fs (path_join pkg filename)")
    have keep: "fs' p = fs p"
      using fix_file_keeps_test[OF Cons.prems, of dev fs "path_join pkg filename"] step by simp
    show ?thesis
    proof (cases r)
      case None
      then show ?thesis using True step keep Cons.IH[OF Cons.prems, of fs'] by simp
    next
      case (Some e)
      then show ?thesis using True step keep by simp
    qed
  qed
qed

lemma fix_packages_loop_keeps_test:
  "suffix ''_test.go'' p \<Longrightarrow> fst (fix_packages_loop dev listdir fs pkgs) p = fs p"
proof (induction pkgs arbitrary: fs)
  case Nil
  then show ?case by simp
next
  case (Cons pkg pkgs)
  show ?case
  proof (cases "fs pkg")
    case None
    then show ?thesis using Cons by simp
  next
    case (Some n)
    show ?thesis
    proof (cases n)
      case (File x)
      then show ?thesis using Some by simp
    next
      case Binary
      then show ?thesis using Some by simp
    next
      case Dir
      obtain fs' r where step: "fix_listed dev fs pkg (listdir fs pkg) = (fs', r)"
        by (cases "fix_listed dev fs pkg (listdir fs pkg)")
      have keep: "fs' p = fs p"
        using fix_listed_keeps_test[OF Cons.prems, of dev fs pkg "listdir fs pkg"] step by simp
      show ?thesis
      proof (cases r)
        case None
        then show ?thesis using Some Dir step keep Cons.IH[OF Cons.prems, of fs'] by simp
      next
        case (Some e)
        then show ?thesis using \<open>fs pkg = Some n\<close> Dir step keep by simp
      qed
    qed
  qed
qed


lemma mkdirs_frame: "p \<notin> set ds \<Longrightarrow> fst (mkdirs fs ds) p = fs p"
  by (induction ds arbitrary: fs) (auto split: option.splits node.splits)

lemma mkdirs_keeps: "fs p \<noteq> None \<Longrightarrow> fst (mkdirs fs ds) p = fs p"
proof (induction ds arbitrary: fs)
  case Nil
  then show ?case by simp
next
  case (Cons d ds)
  show ?case
  proof (cases "fs d")
    case None
    then have "d \<noteq> p" using Cons.prems by auto
    then have "(fs(d \<mapsto> Dir)) p \<noteq> None" using Cons.prems by simp
    then have "fst (mkdirs (fs(d \<mapsto> Dir)) ds) p = (fs(d \<mapsto> Dir)) p" by (rule Cons.IH)
    then show ?thesis using None \<open>d \<noteq> p\<close> by simp
  next
    case (Some n)
    then show ?thesis using Cons by (cases n) auto
  qed
qed

lemma remove_file_frame: "q \<noteq> p \<Longrightarrow> fst (remove_file fs q) p = fs p"
  by (auto simp: remove_file_def split: option.splits node.splits)

lemma move_one_frame:
  assumes "p \<noteq> src_of entry" "p \<noteq> dst_of entry" "p \<notin> set (dir_prefixes [] (dst_dir_of entry))"
  shows "fst (move_one dev fs entry) p = fs p"
proof (cases "exists_path fs (src_of entry)")
  case False
  then show ?thesis by (simp add: move_one_def)
next
  case True
  obtain fs1 r1 where mk: "makedirs fs (dst_dir_of entry) = (fs1, r1)"
    by (cases "makedirs fs (dst_dir_of entry)")
  have k1: "fs1 p = fs p"
    using mkdirs_frame[OF assms(3), of fs] mk by (simp add: makedirs_def)
  show ?thesis
  proof (cases r1)
    case (Some e)
    then show ?thesis using True mk k1 by (simp add: move_one_def)
  next
    case None
    show ?thesis
    proof (cases "read_file fs1 (src_of entry)")
      case (Inl e)
      then show ?thesis using True mk None k1 by (simp add: move_one_def)
    next
      case (Inr content)
      obtain fs2 r2 where wr:
        "write_file dev fs1 (dst_of entry) (move_content (snd entry) content) = (fs2, r2)"
        by (cases "write_file dev fs1 (dst_of entry) (move_content (snd entry) content)")
      have k2: "fs2 p = fs1 p"
        using write_file_frame[of "dst_of entry" p dev fs1] assms(2) wr by (metis fst_conv)
      show ?thesis
      proof (cases r2)
        case (Some e)
        then show ?thesis using True mk None Inr wr k1 k2 by (simp add: move_one_def)
      next
        case none2: None
        have "fst (remove_file fs2 (src_of entry)) p = fs2 p"
          using remove_file_frame[of "src_of entry" p fs2] assms(1) by simp
        then show ?thesis using True mk None Inr wr none2 k1 k2 by (simp add: move_one_def)
      qed
    qed
  qed
qed

lemma move_all_frame:
  assumes "\<forall>entry \<in> set entries.
             p \<noteq> src_of entry \<and> p \<noteq> dst_of entry \<and> p \<notin> set (dir_prefixes [] (dst_dir_of entry))"
  shows "fst (move_all dev fs entries) p = fs p"
  using assms
proof (induction entries arbitrary: fs)
  case Nil
  then show ?case by simp
next
  case (Cons entry entries)
  obtain fs' r where step: "move_one dev fs entry = (fs', r)" by (cases "move_one dev fs entry")
  have keep: "fs' p = fs p" using move_one_frame[of p entry dev fs] Cons.prems step by simp
  show ?case
  proof (cases r)
    case None
    then show ?thesis using step keep Cons.IH[of fs'] Cons.prems by simp
  next
    case (Some e)
    then show ?thesis using step keep by simp
  qed
qed

lemma mapping_dirs:
  "list_all (\<lambda>entry. set (dir_prefixes [] (dst_dir_of entry)) \<subseteq>
      set [''internal'', ''internal/cli'', dst_dir_of entry]) file_mapping"
  by code_simp

lemma untouched_entry:
  assumes "p \<notin> set touched_paths" "entry \<in> set file_mapping"
  shows "p \<noteq> src_of entry \<and> p \<noteq> dst_of entry \<and> p \<notin> set (dir_prefixes [] (dst_dir_of entry))"
proof -
  have "set (dir_prefixes [] (dst_dir_of entry)) \<subseteq> set [''internal'', ''internal/cli'', dst_dir_of entry]"
    using mapping_dirs assms(2) by (simp add: list_all_iff)
  moreover have "p \<noteq> src_of entry" "p \<noteq> dst_of entry" "p \<noteq> dst_dir_of entry"
    "p \<noteq> ''internal''" "p \<noteq> ''internal/cli''"
    using assms by (auto simp: touched_paths_def)
  ultimately show ?thesis by auto
qed

lemma mapping_dst_ne_src_all: "list_all (\<lambda>entry. dst_of entry \<noteq> src_of entry) file_mapping"
  by code_simp

lemma mapping_dst_ne_src: "entry \<in> set file_mapping \<Longrightarrow> dst_of entry \<noteq> src_of entry"
  using mapping_dst_ne_src_all by (simp add: list_all_iff)

lemma move_one_result:
  assumes "dst_of entry \<noteq> src_of entry" and "fs (src_of entry) = Some (File content)"
  shows "move_one dev fs entry =
     (let fs1 = fst (makedirs fs (dst_dir_of entry)); data = move_content (snd entry) content in
      case snd (makedirs fs (dst_dir_of entry)) of
        Some e \<Rightarrow> (fs1, Some e)
      | None \<Rightarrow>
          (case fs1 (dst_of entry) of
             Some Dir \<Rightarrow> (fs1, Some IsADirectoryError)
           | _ \<Rightarrow>
               (case dev (dst_of entry) data of
                  OpenFails \<Rightarrow> (fs1, Some OSError)
                | WriteFails left \<Rightarrow> (fs1(dst_of entry \<mapsto> File left), Some OSError)
                | Written landed \<Rightarrow> (fs1(dst_of entry \<mapsto> File landed, src_of entry := None), None))))"
proof -
  obtain fs1 r1 where mk: "makedirs fs (dst_dir_of entry) = (fs1, r1)"
    by (cases "makedirs fs (dst_dir_of entry)")
  have "fst (mkdirs fs (dir_prefixes [] (dst_dir_of entry))) (src_of entry) = fs (src_of entry)"
    using assms(2) by (intro mkdirs_keeps) simp
  then have src1: "fs1 (src_of entry) = Some (File content)"
    using mk assms(2) by (simp add: makedirs_def)
  have ex: "exists_path fs (src_of entry)" using assms(2) by (simp add: exists_path_def)
  have rd: "read_file fs1 (src_of entry) = Inr content" using src1 by (simp add: read_file_def)
  show ?thesis
  proof (cases r1)
    case (Some e)
    then show ?thesis using ex mk by (simp add: move_one_def)
  next
    case None
    have rm: "\<And>x. remove_file (fs1(dst_of entry \<mapsto> File x)) (src_of entry) =
          (fs1(dst_of entry \<mapsto> File x, src_of entry := None), None)"
      using src1 assms(1) by (simp add: remove_file_def)
    show ?thesis
      using ex mk None rd rm
      by (auto simp: move_one_def write_file_def Let_def
               split: option.splits node.splits write_outcome.splits)
  qed
qed

lemma move_one_absent: "fs (src_of entry) = None \<Longrightarrow> move_one dev fs entry = (fs, None)"
  by (simp add: move_one_def exists_path_def)

lemma move_one_removes:
  assumes "move_one dev fs entry = (fs', None)"
  shows "fs' (src_of entry) = None"
proof (cases "fs (src_of entry)")
  case None
  then show ?thesis using assms by (simp add: move_one_absent)
next
  case (Some n)
  then have ex: "exists_path fs (src_of entry)" by (simp add: exists_path_def)
  show ?thesis
    using assms ex
    by (auto simp: move_one_def remove_file_def
             split: prod.splits option.splits sum.splits node.splits)
qed

lemma independent_Cons: "independent (entry # entries) \<Longrightarrow> independent entries"
  by (auto simp: independent_def list_all_iff)

lemma move_all_removes:
  assumes "independent entries" and "move_all dev fs entries = (fs', None)" and "e \<in> set entries"
  shows "fs' (src_of e) = None"
  using assms
proof (induction entries arbitrary: fs)
  case Nil
  then show ?case by simp
next
  case (Cons entry entries)
  obtain fs1 r where step: "move_one dev fs entry = (fs1, r)" by (cases "move_one dev fs entry")
  have r: "r = None" using Cons.prems(2) step by (cases r) auto
  then have rest: "move_all dev fs1 entries = (fs', None)" using Cons.prems(2) step by simp
  show ?case
  proof (cases "e \<in> set entries")
    case True
    then show ?thesis using Cons.IH[OF independent_Cons[OF Cons.prems(1)] rest] by simp
  next
    case False
    then have e: "e = entry" using Cons.prems(3) by simp
    have gone: "fs1 (src_of entry) = None" using move_one_removes step r by simp
    have "\<forall>e' \<in> set entries. src_of entry \<noteq> src_of e' \<and> src_of entry \<noteq> dst_of e' \<and>
            src_of entry \<notin> set (dir_prefixes [] (dst_dir_of e'))"
      using Cons.prems(1) by (auto simp: independent_def list_all_iff)
    then have "fst (move_all dev fs1 entries) (src_of entry) = fs1 (src_of entry)"
      by (rule move_all_frame)
    then show ?thesis using rest gone e by simp
  qed
qed

lemma move_all_noop:
  "\<forall>e \<in> set entries. fs (src_of e) = None \<Longrightarrow> move_all dev fs entries = (fs, None)"
  by (induction entries) (simp_all add: move_one_absent)

lemma file_mapping_independent: "independent file_mapping"
  by code_simp

lemma move_and_update_twice:
  assumes "snd (move_and_update dev fs) = None"
  shows "move_and_update dev' (fst (move_and_update dev fs)) = (fst (move_and_update dev fs), None)"
proof -
  obtain fs' where run: "move_all dev fs file_mapping = (fs', None)"
    using assms by (cases "move_all dev fs file_mapping") (simp add: move_and_update_def)
  have "\<forall>e \<in> set file_mapping. fs' (src_of e) = None"
    using move_all_removes[OF file_mapping_independent run] by blast
  then have "move_all dev' fs' file_mapping = (fs', None)" by (rule move_all_noop)
  then show ?thesis using run by (simp add: move_and_update_def)
qed

section \<open>Running the scripts a second time\<close>

text \<open>
  Claim C1, as the code has it. A run of \<^verbatim>\<open>fix_cli_imports.py\<close> or of
  \<^verbatim>\<open>update_refs.py\<close> leaves the text of a unit unchanged when none of the script's
  patterns occurs in it; so a second run leaves alone every unit in which the output of
  the first run holds no pattern any more. A second run of \<^verbatim>\<open>move_and_update.py\<close> after
  a first run that completed changes nothing at all, on any device: the sources are gone.
\<close>

theorem C1_settled_text_unchanged:
  "(cli_fixed c \<longrightarrow> fix_content c = c) \<and>
   (refs_fixed c \<longrightarrow> update_content c = c) \<and>
   (snd (move_and_update dev fs) = None \<longrightarrow>
      move_and_update dev' (fst (move_and_update dev fs)) = (fst (move_and_update dev fs), None))"
  using fix_content_fixed[of c] update_content_fixed[of c] move_and_update_twice[of dev fs dev']
  by blast

text \<open>
  The output of a first run on \<^verbatim>\<open>x := isPath(p)\<close> is such a text; both scripts leave it as
  it is. The first run of \<^verbatim>\<open>move_and_update.py\<close> on the example tree completes.
\<close>

theorem C1_settled_text_unchanged_witness:
  "cli_fixed ''x := cli.IsPath(p)'' \<and>
   fix_content ''x := cli.IsPath(p)'' = ''x := cli.IsPath(p)'' \<and>
   refs_fixed ''x := cli.IsPath(p)'' \<and>
   update_content ''x := cli.IsPath(p)'' = ''x := cli.IsPath(p)'' \<and>
   snd (move_and_update sound_device fs_example) = None \<and>
   move_and_update sound_device (fst (move_and_update sound_device fs_example)) =
     (fst (move_and_update sound_device fs_example), None)"
proof -
  have h1: "cli_fixed ''x := cli.IsPath(p)''" by code_simp
  have h2: "refs_fixed ''x := cli.IsPath(p)''" by code_simp
  have h3: "snd (move_and_update sound_device fs_example) = None" by code_simp
  show ?thesis
    using C1_settled_text_unchanged[of "''x := cli.IsPath(p)''" sound_device fs_example sound_device]
          h1 h2 h3
    by blast
qed

text \<open>
  The output of a first run on \<^verbatim>\<open>GetLogger()\<close> still contains \<^verbatim>\<open>GetLogger()\<close>, and the
  output of \<^verbatim>\<open>update_refs.py\<close> on \<^verbatim>\<open>NewOutputWriter(\<close> still matches
  \<^verbatim>\<open>\bNewOutputWriter\(\<close>: the second run prefixes them again.
\<close>

theorem C1_second_run_changes_text:
  "fix_content (fix_content ''GetLogger()'') = ''cli.cli.GetLogger()'' \<and>
   fix_content ''GetLogger()'' = ''cli.GetLogger()'' \<and>
   update_content (update_content ''NewOutputWriter('') = ''base.base.NewOutputWriter('' \<and>
   update_content ''NewOutputWriter('' = ''base.NewOutputWriter(''"
  by code_simp

section \<open>Qualifying references\<close>




section \<open>Names that are prefixes of other names\<close>




section \<open>Symbols bound to two packages\<close>




section \<open>Removing the original\<close>

text \<open>
  Claim C5, as the code has it, for every entry of the mapping whose source is a regular
  file and for every device. When a round of the loop raises, the source still holds its
  text. When it completes, the write statement has completed, the destination holds
  whatever text the device left there, and the source is removed; the destination is not
  read back.
\<close>

theorem C5_original_removed_after_write:
  "entry \<in> set file_mapping \<Longrightarrow> fs (src_of entry) = Some (File content) \<Longrightarrow>
   (snd (move_one dev fs entry) \<noteq> None \<longrightarrow>
      fst (move_one dev fs entry) (src_of entry) = Some (File content)) \<and>
   (snd (move_one dev fs entry) = None \<longrightarrow>
      fst (move_one dev fs entry) (src_of entry) = None \<and>
      (\<exists>landed. dev (dst_of entry) (move_content (snd entry) content) = Written landed \<and>
                fst (move_one dev fs entry) (dst_of entry) = Some (File landed)))"
proof -
  assume a: "entry \<in> set file_mapping" "fs (src_of entry) = Some (File content)"
  have ne: "dst_of entry \<noteq> src_of entry" using a(1) by (rule mapping_dst_ne_src)
  have "fst (mkdirs fs (dir_prefixes [] (dst_dir_of entry))) (src_of entry) = fs (src_of entry)"
    using a(2) by (intro mkdirs_keeps) simp
  then have src1: "fst (makedirs fs (dst_dir_of entry)) (src_of entry) = Some (File content)"
    using a(2) by (simp add: makedirs_def)
  show ?thesis
    unfolding move_one_result[where entry=entry and fs=fs and content=content and dev=dev, OF ne a(2)] Let_def
    using src1 ne
    by (auto split: option.splits node.splits write_outcome.splits)
qed

text \<open>The first entry of the mapping, on a device whose write fails and on a sound one.\<close>

theorem C5_original_removed_after_write_witness:
  "(''files.go'', ''drive'') \<in> set file_mapping \<and>
   fs_example (src_of (''files.go'', ''drive'')) = Some (File ''package cli'') \<and>
   snd (move_one failing_device fs_example (''files.go'', ''drive'')) \<noteq> None \<and>
   fst (move_one failing_device fs_example (''files.go'', ''drive'')) (src_of (''files.go'', ''drive''))
     = Some (File ''package cli'') \<and>
   snd (move_one sound_device fs_example (''files.go'', ''drive'')) = None \<and>
   fst (move_one sound_device fs_example (''files.go'', ''drive'')) (src_of (''files.go'', ''drive''))
     = None"
proof -
  have h1: "(''files.go'', ''drive'') \<in> set file_mapping" by code_simp
  have h2: "fs_example (src_of (''files.go'', ''drive'')) = Some (File ''package cli'')" by code_simp
  have h3: "snd (move_one failing_device fs_example (''files.go'', ''drive'')) \<noteq> None" by code_simp
  have h4: "snd (move_one sound_device fs_example (''files.go'', ''drive'')) = None" by code_simp
  show ?thesis
    using C5_original_removed_after_write[where entry="(''files.go'', ''drive'')" and fs=fs_example and content="''package cli''"
                and dev=failing_device]
          C5_original_removed_after_write[where entry="(''files.go'', ''drive'')" and fs=fs_example and content="''package cli''"
                and dev=sound_device]
          h1 h2 h3 h4 by blast
qed

text \<open>
  On a device that completes the write with other text than was written, the round
  completes, the destination holds the other text, and the source is gone.
\<close>

theorem C5_no_read_back:
  "fs_example (src_of (''files.go'', ''drive'')) = Some (File ''package cli'') \<and>
   move_content ''drive'' ''package cli'' = ''package drive'' \<and>
   snd (move_one corrupting_device fs_example (''files.go'', ''drive'')) = None \<and>
   fst (move_one corrupting_device fs_example (''files.go'', ''drive''))
     (dst_of (''files.go'', ''drive'')) = Some (File ''garbage'') \<and>
   fst (move_one corrupting_device fs_example (''files.go'', ''drive''))
     (src_of (''files.go'', ''drive'')) = None"
  by code_simp

section \<open>The import block\<close>




section \<open>A destination that exists\<close>




section \<open>The package clause\<close>

text \<open>
  Claim C8 at a unit whose package clause follows a comment line. \<^verbatim>\<open>fix_packages.py\<close>
  anchors its pattern with \<^verbatim>\<open>^\<close> and passes no \<^verbatim>\<open>re.MULTILINE\<close>, so the clause is not
  found and the text is written back as it was; \<^verbatim>\<open>move_and_update.py\<close>, which passes the
  flag, rewrites the clause of the same text.
\<close>

theorem C8_package_clause_behind_comment:
  "fix_package_content ''drive'' (''// tool'' @ [NL] @ ''package cli'' @ [NL]) =
     ''// tool'' @ [NL] @ ''package cli'' @ [NL] \<and>
   move_content ''drive'' (''// tool'' @ [NL] @ ''package cli'' @ [NL]) =
     ''// tool'' @ [NL] @ ''package drive'' @ [NL]"
  by code_simp

section \<open>Test files\<close>

text \<open>
  Claim C9. For a path that ends in \<^verbatim>\<open>_test.go\<close>, \<^verbatim>\<open>fix_file\<close> leaves the file system as
  it is, the loop over a directory listing skips a name with that ending, and after the
  whole script, whatever the device and the listings, what is at the path is what was
  there before.
\<close>

theorem C9_test_files_unchanged:
  "suffix ''_test.go'' p \<Longrightarrow>
   fst (fix_file dev fs p) = fs \<and>
   fix_listed dev fs pkg (p # rest) = fix_listed dev fs pkg rest \<and>
   fst (fix_cli_imports dev listdir fs) p = fs p"
  by (simp add: fix_file_test_unchanged fix_packages_loop_keeps_test fix_cli_imports_def)

text \<open>The test file of the example tree, listed next to the unit it tests.\<close>

theorem C9_test_files_unchanged_witness:
  "suffix ''_test.go'' ''internal/cli/drive/list_test.go'' \<and>
   fst (fix_cli_imports sound_device (\<lambda>fs d. [''list_test.go'', ''list.go'']) fs_example)
     ''internal/cli/drive/list_test.go'' = Some (File ''NewOutputWriter('')"
proof -
  have h: "suffix ''_test.go'' ''internal/cli/drive/list_test.go''" by code_simp
  have v: "fs_example ''internal/cli/drive/list_test.go'' = Some (File ''NewOutputWriter('')" by code_simp
  show ?thesis
    using C9_test_files_unchanged[OF h, of sound_device fs_example "[]" "[]" "(\<lambda>fs d. [''list_test.go'', ''list.go''])"] h v
    by simp
qed

section \<open>What the move leaves alone\<close>

text \<open>
  Claim C10, as the code has it. Whatever the device, and also when the script stops with
  an exception, \<^verbatim>\<open>move_and_update.py\<close> leaves every path as it was that is neither a source
  \<^verbatim>\<open>internal/cli/<filename>\<close>, nor a destination \<^verbatim>\<open>internal/cli/<pkg>/<filename>\<close>, nor a
  directory on the way to a destination; and an entry whose source does not exist changes
  nothing.
\<close>

theorem C10_other_paths_unchanged:
  "(p \<notin> set touched_paths \<longrightarrow> fst (move_and_update dev fs) p = fs p) \<and>
   (\<not> exists_path fs (src_of entry) \<longrightarrow> move_one dev fs entry = (fs, None))"
  using move_all_frame[of file_mapping p dev fs] untouched_entry[of p]
  by (auto simp: move_and_update_def move_one_def)

text \<open>
  In the example tree \<^verbatim>\<open>internal/cli/main.go\<close> is not named by the mapping, and there is
  no \<^verbatim>\<open>internal/cli/folders.go\<close>.
\<close>

theorem C10_other_paths_unchanged_witness:
  "''internal/cli/main.go'' \<notin> set touched_paths \<and>
   fst (move_and_update sound_device fs_example) ''internal/cli/main.go''
     = Some (File ''package cli'') \<and>
   \<not> exists_path fs_example (src_of (''folders.go'', ''drive'')) \<and>
   move_one sound_device fs_example (''folders.go'', ''drive'') = (fs_example, None)"
proof -
  have h1: "''internal/cli/main.go'' \<notin> set touched_paths" by code_simp
  have h2: "\<not> exists_path fs_example (src_of (''folders.go'', ''drive''))" by code_simp
  have v: "fs_example ''internal/cli/main.go'' = Some (File ''package cli'')" by code_simp
  show ?thesis
    using C10_other_paths_unchanged[of "''internal/cli/main.go''" sound_device fs_example
            "(''folders.go'', ''drive'')"] h1 h2 v
    by simp
qed

text \<open>
  The file \<^verbatim>\<open>internal/cli/drive/files.go\<close> is not directly under \<^verbatim>\<open>internal/cli\<close>: it is
  the source of no entry. The script overwrites it, being the destination of the first.
\<close>

theorem C10_destination_file_changed:
  "list_all (\<lambda>entry. src_of entry \<noteq> ''internal/cli/drive/files.go'') file_mapping \<and>
   fs_example ''internal/cli/drive/files.go'' = Some (File ''package other'') \<and>
   snd (move_and_update sound_device fs_example) = None \<and>
   fst (move_and_update sound_device fs_example) ''internal/cli/drive/files.go''
     = Some (File ''package drive'')"
  by code_simp

end
